theory Spec2Isabelle
  imports Main
begin

section \<open>Python values used by interview.py\<close>

text \<open>
  A Python \<open>str\<close> is the list of its Unicode code points. \<open>py\<close> gives the \<open>str\<close> of a
  literal of the source, written here in ASCII.
\<close>

type_synonym pystr = "nat list"

definition py :: "string \<Rightarrow> pystr" where
  "py s = map of_char s"

text \<open>
  \<open>isspace\<close> is the test \<open>str.strip()\<close> applies to each end of the text: the code points
  that Python counts as whitespace. They are the ASCII controls 9 to 13 and 28 to 31,
  the space, NEL (U+0085), the no-break space (U+00A0), U+1680, U+2000 to U+200A,
  U+2028, U+2029, U+202F, U+205F and U+3000.
\<close>

definition isspace :: "nat \<Rightarrow> bool" where
  "isspace c =
     ((9 \<le> c \<and> c \<le> 13) \<or> (28 \<le> c \<and> c \<le> 32) \<or> c = 0x85 \<or> c = 0xA0 \<or> c = 0x1680
      \<or> (0x2000 \<le> c \<and> c \<le> 0x200A) \<or> c = 0x2028 \<or> c = 0x2029 \<or> c = 0x202F
      \<or> c = 0x205F \<or> c = 0x3000)"

definition strip :: "pystr \<Rightarrow> pystr" where
  "strip s = rev (dropWhile isspace (rev (dropWhile isspace s)))"

text \<open>
  \<open>str.upper()\<close> follows the case mapping of the Unicode tables, which are not part of
  the program: the functions that call it take it as a parameter.
\<close>

type_synonym str_upper = "pystr \<Rightarrow> pystr"

text \<open>
  The reasons of the \<open>ValueError\<close>s raised while validating an evaluation, and
  \<open>OtherValueError\<close> for a \<open>ValueError\<close> raised elsewhere, with its text.
\<close>

datatype value_error =
    NotAnObject
  | NoEvaluationsList
  | BadOverallGrade
  | BadOverallJustification
  | LengthMismatch nat nat
  | BadItem nat
  | OtherValueError pystr

text \<open>
  Exceptions, as far as the handlers of the program tell them apart. All are subclasses
  of \<open>Exception\<close>. \<open>JSONDecodeError\<close> is a subclass of \<open>ValueError\<close>, which every handler
  of the program tests after \<open>JSONDecodeError\<close>; \<open>ValueError\<close> stands for the other
  \<open>ValueError\<close>s. \<open>OtherException\<close> is any exception of another class, with its text.
  The named ones are raised by Python or Streamlit: \<open>IndexError\<close> by indexing an empty or
  too short list, \<open>AttributeError\<close> by reading an attribute of \<open>None\<close>, \<open>TypeError\<close> by
  \<open>json.loads(None)\<close> or \<open>len(None)\<close>, \<open>UnboundLocalError\<close> by reading a local variable
  that was never assigned, and \<open>StreamlitAPIException\<close> by \<open>st.progress\<close> for a value
  outside \<open>[0, 1]\<close>.
\<close>

datatype exn =
    JSONDecodeError pystr
  | ValueError value_error
  | IndexError
  | AttributeError
  | TypeError
  | UnboundLocalError
  | StreamlitAPIException
  | OtherException pystr

text \<open>
  \<open>xs[i]\<close> for a Python int \<open>i\<close>: a negative index counts from the end, and an index
  outside \<open>[-len, len)\<close> raises IndexError. \<open>xs[:n]\<close> never raises; a negative \<open>n\<close>
  drops the last \<open>-n\<close> elements.
\<close>

definition py_norm :: "nat \<Rightarrow> int \<Rightarrow> exn + nat" where
  "py_norm n i =
     (if 0 \<le> i \<and> i < int n then Inr (nat i)
      else if - int n \<le> i \<and> i < 0 then Inr (nat (int n + i))
      else Inl IndexError)"

definition py_index :: "'a list \<Rightarrow> int \<Rightarrow> exn + 'a" where
  "py_index xs i = (case py_norm (length xs) i of Inl e \<Rightarrow> Inl e | Inr k \<Rightarrow> Inr (xs ! k))"

definition py_setitem :: "'a list \<Rightarrow> int \<Rightarrow> 'a \<Rightarrow> exn + 'a list" where
  "py_setitem xs i v = (case py_norm (length xs) i of Inl e \<Rightarrow> Inl e | Inr k \<Rightarrow> Inr (xs[k := v]))"

definition py_prefix :: "int \<Rightarrow> 'a list \<Rightarrow> 'a list" where
  "py_prefix n xs = (if 0 \<le> n then take (nat n) xs else take (length xs - nat (- n)) xs)"

subsection \<open>Decoded JSON\<close>

text \<open>
  What \<open>json.loads\<close> returns: \<open>None\<close>, \<open>bool\<close>, \<open>int\<close>, \<open>float\<close>, \<open>str\<close>, \<open>list\<close> or \<open>dict\<close>.
  A dict is an association list read by \<open>map_of\<close>; a decoded dict holds each key once.
  A finite float \<open>Finite m e\<close> has the value \<open>m * 2 ^ e\<close>.
\<close>

datatype pyfloat = Finite int int | PosInf | NegInf | NaN

datatype json =
    JNull
  | JBool bool
  | JInt int
  | JFloat pyfloat
  | JStr pystr
  | JList "json list"
  | JDict "(pystr \<times> json) list"

text \<open>\<open>isinstance(v, dict)\<close>, \<open>isinstance(v, list)\<close>, \<open>isinstance(v, str)\<close>.\<close>

fun is_dict :: "json \<Rightarrow> bool" where
  "is_dict (JDict d) = True"
| "is_dict v = False"

fun is_list :: "json \<Rightarrow> bool" where
  "is_list (JList xs) = True"
| "is_list v = False"

fun is_str :: "json \<Rightarrow> bool" where
  "is_str (JStr s) = True"
| "is_str v = False"

text \<open>\<open>isinstance(v, int)\<close>: Python's \<open>bool\<close> is a subclass of \<open>int\<close>, so both pass.\<close>

fun is_int :: "json \<Rightarrow> bool" where
  "is_int (JInt k) = True"
| "is_int (JBool b) = True"
| "is_int v = False"

text \<open>
  \<open>v == i\<close> for a decoded value \<open>v\<close> and a Python int \<open>i\<close>: numbers compare by value
  (\<open>True == 1\<close>, \<open>2.0 == 2\<close>), every other value is unequal to an int.
\<close>

fun float_eq_int :: "pyfloat \<Rightarrow> int \<Rightarrow> bool" where
  "float_eq_int (Finite m e) i =
     (if 0 \<le> e then m * 2 ^ nat e = i else m = i * 2 ^ nat (- e))"
| "float_eq_int f i = False"

fun py_eq_int :: "json \<Rightarrow> int \<Rightarrow> bool" where
  "py_eq_int (JInt k) i = (k = i)"
| "py_eq_int (JBool b) i = ((if b then 1 else 0) = i)"
| "py_eq_int (JFloat f) i = float_eq_int f i"
| "py_eq_int v i = False"

text \<open>\<open>k in v\<close> and \<open>v[k]\<close> for a value already known to be a dict.\<close>

fun lookup :: "json \<Rightarrow> pystr \<Rightarrow> json option" where
  "lookup (JDict d) k = map_of d k"
| "lookup v k = None"

text \<open>
  \<open>json.loads\<close> is a parameter of the functions that call it: it maps the reply text to
  the decoded value, or to the exception it raises: a \<open>JSONDecodeError\<close> for text that is
  not JSON, and possibly another one (a plain \<open>ValueError\<close> for an integer of too many
  digits, a \<open>RecursionError\<close> for deep nesting).
\<close>

type_synonym loads = "pystr \<Rightarrow> exn + json"

section \<open>The completion service and the outputs\<close>

text \<open>
  The reply of \<open>client.chat.completions.create\<close>, as far as the code reads it:
  \<open>response.choices\<close>, \<open>choice.message\<close> and \<open>message.content\<close>, the last two possibly
  \<open>None\<close>.
\<close>

datatype message = Message (message_content: "pystr option")

datatype choice = Choice (choice_message: "message option")

datatype response = Response (response_choices: "choice list")

text \<open>
  A request is identified by the values interpolated into its prompt; the prompt
  templates, the model name and the sampling parameters are constants of each call site.
  The transcript of an evaluation request is the list of questions, each with the
  stripped answer, or \<open>None\<close> where the transcript says \<open>--- NOT ANSWERED ---\<close>.
\<close>

datatype request =
    RoleCheckRequest pystr
  | QuestionsRequest int pystr pystr
  | SafetyRequest pystr
  | EvaluationRequest pystr "(pystr \<times> pystr option) list" int

datatype api_result = Raises exn | Returns response

text \<open>
  The service is an oracle: given the calls made before and the request, it raises or
  returns a response.
\<close>

type_synonym service = "request list \<Rightarrow> request \<Rightarrow> api_result"

text \<open>
  One constructor for each text the program writes, carrying the interpolated values.
  The same text can go to the console (\<open>print\<close>) and to the page (\<open>st.error\<close>,
  \<open>st.warning\<close>).
\<close>

datatype role_line =
    RoleChecking pystr
  | RoleRaw pystr pystr
  | RoleValidated pystr
  | RoleRejected pystr
  | RoleUnexpected pystr
  | RoleUnclear pystr
  | RoleNoChoices
  | RoleBadStructure
  | RoleFailed exn

datatype gen_line =
    GenStart int pystr
  | GenRaw "pystr option"
  | GenParsed nat
  | GenNotStrings
  | GenBadList
  | GenNoKey
  | GenNoList
  | GenDecodeError pystr
  | GenFaulty pystr
  | GenNotJSON
  | GenFailed exn

datatype safety_line =
    SafetyEmpty
  | SafetyRaw pystr pystr
  | SafetySafe
  | SafetyUnsafe
  | SafetyUnexpected pystr
  | SafetyUnclear pystr
  | SafetyNoChoices
  | SafetyBadStructure
  | SafetyFailed exn

datatype eval_line =
    EvalStart pystr
  | EvalSkippedInvalid
  | EvalSkippedNoAnswers
  | EvalNoAnswers
  | EvalRaw "pystr option"
  | EvalValidated
  | EvalNotJSON pystr
  | EvalDecodeError pystr
  | EvalFaulty "pystr option"
  | EvalBadStructure value_error
  | EvalValidationError value_error
  | EvalFailed exn
  | EvalError exn

datatype ui_line =
    StartFailed
  | NoQuestions
  | AnswerFlagged nat
  | SafetyNotVerified nat
  | SomeUnsafe

datatype line =
    OfRole role_line
  | OfGen gen_line
  | OfSafety safety_line
  | OfEval eval_line
  | OfUi ui_line

datatype level = Error | Warning

text \<open>
  What the functions do beyond returning: the calls made to the service (oldest first),
  the messages put on the page, and the lines printed on the server's console.
\<close>

record world =
  calls :: "request list"
  page :: "(level \<times> line) list"
  console :: "line list"

definition print :: "line \<Rightarrow> world \<Rightarrow> world" where
  "print l w = w\<lparr>console := console w @ [l]\<rparr>"

definition st_error :: "line \<Rightarrow> world \<Rightarrow> world" where
  "st_error l w = w\<lparr>page := page w @ [(Error, l)]\<rparr>"

definition st_warning :: "line \<Rightarrow> world \<Rightarrow> world" where
  "st_warning l w = w\<lparr>page := page w @ [(Warning, l)]\<rparr>"

definition create :: "service \<Rightarrow> request \<Rightarrow> world \<Rightarrow> api_result \<times> world" where
  "create svc req w = (svc (calls w) req, w\<lparr>calls := calls w @ [req]\<rparr>)"

text \<open>
  \<open>response.choices and response.choices[0].message and
  response.choices[0].message.content\<close>: the content when all three are truthy.
\<close>

definition truthy_content :: "response \<Rightarrow> pystr option" where
  "truthy_content response =
     (case response_choices response of
        [] \<Rightarrow> None
      | c # cs \<Rightarrow>
          (case choice_message c of
             None \<Rightarrow> None
           | Some m \<Rightarrow>
               (case message_content m of
                  None \<Rightarrow> None
                | Some s \<Rightarrow> if s \<noteq> [] then Some s else None)))"

text \<open>
  \<open>response.choices[0].message.content\<close> without the guards: IndexError on no choice,
  AttributeError on a missing message.
\<close>

definition first_content :: "response \<Rightarrow> exn + pystr option" where
  "first_content response =
     (case response_choices response of
        [] \<Rightarrow> Inl IndexError
      | c # cs \<Rightarrow>
          (case choice_message c of
             None \<Rightarrow> Inl AttributeError
           | Some m \<Rightarrow> Inr (message_content m)))"

section \<open>The four functions that call the service\<close>

subsection \<open>The role checker\<close>

text \<open>
  Returns the role itself (accepted), the empty string (rejected) or \<open>None\<close>. The
  handler \<open>except Exception\<close> takes every exception of the call.
\<close>

definition check_role ::
  "service \<Rightarrow> str_upper \<Rightarrow> pystr \<Rightarrow> world \<Rightarrow> pystr option \<times> world" where
  "check_role svc upper role_to_check w0 =
     (let w1 = print (OfRole (RoleChecking role_to_check)) w0;
          (r, w2) = create svc (RoleCheckRequest role_to_check) w1
      in case r of
           Raises e \<Rightarrow>
             (None, st_error (OfRole (RoleFailed e)) (print (OfRole (RoleFailed e)) w2))
         | Returns response \<Rightarrow>
             (case truthy_content response of
                Some c \<Rightarrow>
                  (let content = upper (strip c);
                       raw_content = strip c;
                       w3 = print (OfRole (RoleRaw raw_content content)) w2
                   in if content = py ''VALID'' then
                        (Some role_to_check, print (OfRole (RoleValidated role_to_check)) w3)
                      else if content = py ''INVALID'' then
                        (Some [], print (OfRole (RoleRejected role_to_check)) w3)
                      else
                        (None, st_error (OfRole (RoleUnclear raw_content))
                                 (print (OfRole (RoleUnexpected raw_content)) w3)))
              | None \<Rightarrow>
                  (None, st_error (OfRole RoleBadStructure) (print (OfRole RoleNoChoices) w2))))"

subsection \<open>The question generator\<close>

text \<open>
  \<open>all(isinstance(q, str) for q in parsed_questions)\<close>, and the strings themselves.
\<close>

fun the_str :: "json \<Rightarrow> pystr" where
  "the_str (JStr s) = s"
| "the_str v = []"

text \<open>
  The result is a list of strings, or \<open>None\<close> where the function ends without a
  \<open>return\<close>: the handler of the outer \<open>try\<close> only prints. The inner \<open>try\<close> handles a
  \<open>JSONDecodeError\<close> only; any other exception of \<open>json.loads\<close> reaches the outer
  handler.
\<close>

definition generate_questions_openai ::
  "service \<Rightarrow> loads \<Rightarrow> int \<Rightarrow> pystr \<Rightarrow> pystr \<Rightarrow> world \<Rightarrow> pystr list option \<times> world" where
  "generate_questions_openai svc loads num_questions complexity_of_question role w0 =
     (let w1 = print (OfGen (GenStart num_questions role)) w0;
          (r, w2) = create svc (QuestionsRequest num_questions complexity_of_question role) w1
      in case r of
           Raises e \<Rightarrow> (None, print (OfGen (GenFailed e)) w2)
         | Returns response \<Rightarrow>
             (case first_content response of
                Inl e \<Rightarrow> (None, print (OfGen (GenFailed e)) w2)
              | Inr content \<Rightarrow>
                  (let w3 = print (OfGen (GenRaw content)) w2
                   in case content of
                        None \<Rightarrow> (None, print (OfGen (GenFailed TypeError)) w3)
                      | Some c \<Rightarrow>
                          (case loads c of
                             Inl (JSONDecodeError e) \<Rightarrow>
                               (Some [],
                                st_error (OfGen GenNotJSON)
                                  (print (OfGen (GenFaulty c)) (print (OfGen (GenDecodeError e)) w3)))
                           | Inl e \<Rightarrow> (None, print (OfGen (GenFailed e)) w3)
                           | Inr data \<Rightarrow>
                               (case lookup data (py ''questions'') of
                                  Some (JList parsed_questions) \<Rightarrow>
                                    if list_all is_str parsed_questions then
                                      (Some (py_prefix num_questions (map the_str parsed_questions)),
                                       print (OfGen (GenParsed (length parsed_questions))) w3)
                                    else
                                      (Some [],
                                       st_error (OfGen GenBadList) (print (OfGen GenNotStrings) w3))
                                | _ \<Rightarrow>
                                    (Some [],
                                     st_error (OfGen GenNoList) (print (OfGen GenNoKey) w3)))))))"

subsection \<open>The answer safety checker\<close>

text \<open>
  Returns \<open>True\<close> (safe), \<open>False\<close> (unsafe) or \<open>None\<close>. The script stops at start-up
  when no client could be made, so the test that the client exists always passes.
\<close>

definition check_answer_safety ::
  "service \<Rightarrow> str_upper \<Rightarrow> pystr \<Rightarrow> world \<Rightarrow> bool option \<times> world" where
  "check_answer_safety svc upper answer_text w0 =
     (if answer_text = [] \<or> strip answer_text = [] then
        (Some True, print (OfSafety SafetyEmpty) w0)
      else
        (let (r, w1) = create svc (SafetyRequest answer_text) w0
         in case r of
              Raises e \<Rightarrow>
                (None, st_error (OfSafety (SafetyFailed e))
                         (print (OfSafety (SafetyFailed e)) w1))
            | Returns response \<Rightarrow>
                (case truthy_content response of
                   Some c \<Rightarrow>
                     (let content = upper (strip c);
                          raw_content = strip c;
                          w2 = print (OfSafety (SafetyRaw raw_content content)) w1
                      in if content = py ''SAFE'' then
                           (Some True, print (OfSafety SafetySafe) w2)
                         else if content = py ''UNSAFE'' then
                           (Some False, print (OfSafety SafetyUnsafe) w2)
                         else
                           (Some False, st_warning (OfSafety (SafetyUnclear raw_content))
                                          (print (OfSafety (SafetyUnexpected raw_content)) w2)))
                 | None \<Rightarrow>
                     (None, st_error (OfSafety SafetyBadStructure)
                              (print (OfSafety SafetyNoChoices) w1)))))"

subsection \<open>The answer evaluator\<close>

text \<open>
  The loop over \<open>evaluation_results["evaluations"]\<close>: the index of the first item that
  is not a dict, or has no \<open>question_index\<close> equal to its position, or no int \<open>grade\<close>,
  or no str \<open>justification\<close>.
\<close>

definition item_ok :: "nat \<Rightarrow> json \<Rightarrow> bool" where
  "item_ok i item =
     (\<not> (\<not> is_dict item
         \<or> lookup item (py ''question_index'') = None
         \<or> \<not> py_eq_int (the (lookup item (py ''question_index''))) (int i)
         \<or> lookup item (py ''grade'') = None
         \<or> \<not> is_int (the (lookup item (py ''grade'')))
         \<or> lookup item (py ''justification'') = None
         \<or> \<not> is_str (the (lookup item (py ''justification'')))))"

fun check_items :: "nat \<Rightarrow> json list \<Rightarrow> nat option" where
  "check_items i [] = None"
| "check_items i (item # items) = (if item_ok i item then check_items (Suc i) items else Some i)"

text \<open>The checks after \<open>json.loads\<close>, in the order of the source; the first that fails.\<close>

definition validate :: "json \<Rightarrow> nat \<Rightarrow> value_error option" where
  "validate evaluation_results n =
     (if \<not> is_dict evaluation_results then Some NotAnObject
      else if lookup evaluation_results (py ''evaluations'') = None
              \<or> \<not> is_list (the (lookup evaluation_results (py ''evaluations'')))
        then Some NoEvaluationsList
      else if lookup evaluation_results (py ''overall_grade'') = None
              \<or> \<not> is_int (the (lookup evaluation_results (py ''overall_grade'')))
        then Some BadOverallGrade
      else if lookup evaluation_results (py ''overall_justification'') = None
              \<or> \<not> is_str (the (lookup evaluation_results (py ''overall_justification'')))
        then Some BadOverallJustification
      else
        (case the (lookup evaluation_results (py ''evaluations'')) of
           JList items \<Rightarrow>
             if length items \<noteq> n then Some (LengthMismatch (length items) n)
             else (case check_items 0 items of Some i \<Rightarrow> Some (BadItem i) | None \<Rightarrow> None)
         | _ \<Rightarrow> Some NoEvaluationsList))"

text \<open>The evaluation returned when no answer was typed.\<close>

definition not_answered :: "nat \<Rightarrow> json" where
  "not_answered i =
     JDict [(py ''question_index'', JInt (int i)), (py ''grade'', JInt 1),
            (py ''justification'', JStr (py ''Not answered''))]"

definition no_answers_evaluation :: "nat \<Rightarrow> json" where
  "no_answers_evaluation n =
     JDict [(py ''evaluations'', JList (map not_answered [0..<n])),
            (py ''overall_grade'', JInt 1),
            (py ''overall_justification'', JStr (py ''No answers were provided for evaluation.''))]"

text \<open>
  One entry of the transcript: \<open>a.strip() if a else ""\<close>, which is \<open>strip a\<close> for a
  string, kept when it is not empty.
\<close>

definition transcript_entry :: "pystr \<times> pystr \<Rightarrow> pystr \<times> pystr option" where
  "transcript_entry qa =
     (let answer_text = strip (snd qa)
      in (fst qa, if answer_text \<noteq> [] then Some answer_text else None))"

text \<open>
  The three handlers of the \<open>try\<close>, for an exception \<open>e\<close> raised inside it. The result
  is \<open>Inr\<close> of the returned value, or \<open>Inl\<close> of an exception that leaves the function.
  \<open>evaluation_content\<close> is \<open>None\<close> while the local variable of that name has not been
  assigned (the exception came from the call of the service or from reading the
  response), and its value afterwards. The handler of \<open>JSONDecodeError\<close> prints that
  variable last, which raises \<open>UnboundLocalError\<close> when it was never assigned.
\<close>

definition eval_except ::
  "exn \<Rightarrow> pystr option option \<Rightarrow> world \<Rightarrow> (exn + json option) \<times> world" where
  "eval_except e evaluation_content w =
     (case e of
        JSONDecodeError json_err \<Rightarrow>
          (let w1 = print (OfEval (EvalDecodeError json_err))
                      (st_error (OfEval (EvalNotJSON json_err)) w)
           in case evaluation_content of
                None \<Rightarrow> (Inl UnboundLocalError, w1)
              | Some c \<Rightarrow> (Inr None, print (OfEval (EvalFaulty c)) w1))
      | ValueError val_err \<Rightarrow>
          (Inr None, print (OfEval (EvalValidationError val_err))
                       (st_error (OfEval (EvalBadStructure val_err)) w))
      | _ \<Rightarrow> (Inr None, print (OfEval (EvalError e)) (st_error (OfEval (EvalFailed e)) w)))"

text \<open>
  Returns the validated evaluation, or \<open>None\<close>; \<open>Inl\<close> is an exception that leaves the
  function.
\<close>

definition evaluate_answers_openai ::
  "service \<Rightarrow> loads \<Rightarrow> pystr list \<Rightarrow> pystr list \<Rightarrow> int \<Rightarrow> pystr \<Rightarrow> world
     \<Rightarrow> (exn + json option) \<times> world" where
  "evaluate_answers_openai svc loads qs ans num_questions role w0 =
     (let w1 = print (OfEval (EvalStart role)) w0
      in if qs = [] \<or> ans = [] \<or> length qs \<noteq> length ans then
           (Inr None, print (OfEval EvalSkippedInvalid) w1)
         else
           (let interview_transcript = map transcript_entry (zip qs ans);
                valid_answers_provided = list_ex (\<lambda>entry. snd entry \<noteq> None) interview_transcript
            in if \<not> valid_answers_provided then
                 (Inr (Some (no_answers_evaluation (length qs))),
                  st_warning (OfEval EvalNoAnswers) (print (OfEval EvalSkippedNoAnswers) w1))
               else
                 (let (r, w2) =
                        create svc (EvaluationRequest role interview_transcript num_questions) w1
                  in case r of
                       Raises e \<Rightarrow> eval_except e None w2
                     | Returns response \<Rightarrow>
                         (case first_content response of
                            Inl e \<Rightarrow> eval_except e None w2
                          | Inr evaluation_content \<Rightarrow>
                              (let w3 = print (OfEval (EvalRaw evaluation_content)) w2
                               in case evaluation_content of
                                    None \<Rightarrow> eval_except TypeError (Some evaluation_content) w3
                                  | Some c \<Rightarrow>
                                      (case loads c of
                                         Inl e \<Rightarrow> eval_except e (Some evaluation_content) w3
                                       | Inr evaluation_results \<Rightarrow>
                                           (case validate evaluation_results (length qs) of
                                              Some val_err \<Rightarrow>
                                                eval_except (ValueError val_err)
                                                  (Some evaluation_content) w3
                                            | None \<Rightarrow>
                                                (Inr (Some evaluation_results),
                                                 print (OfEval EvalValidated) w3))))))))"

section \<open>The session and the wizard\<close>

datatype phase = Setup | Interviewing | Finished

text \<open>
  \<open>st.session_state\<close>. \<open>questions\<close> holds what \<open>generate_questions_openai\<close> returned,
  which can be \<open>None\<close>.
\<close>

record session =
  interview_phase :: phase
  questions :: "pystr list option"
  answers :: "pystr list"
  current_question_index :: int
  evaluation_results :: "json option"
  num_questions_selected :: int
  questions_complexity :: pystr
  selected_option :: pystr
  custom_role_input :: pystr
  effective_role :: pystr

text \<open>The values of the \<open>setdefault\<close> calls, which a new session starts with.\<close>

definition session_defaults :: session where
  "session_defaults =
     \<lparr>interview_phase = Setup,
      questions = Some [],
      answers = [],
      current_question_index = 0,
      evaluation_results = None,
      num_questions_selected = 5,
      questions_complexity = py ''Medium'',
      selected_option = py ''App Developer'',
      custom_role_input = [],
      effective_role = py ''App Developer''\<rparr>"

subsection \<open>Setup: the start button\<close>

text \<open>
  The body of \<open>if st.button(start_button_label, ...)\<close>, run when the button is clicked;
  \<open>final_role\<close> is the validated role. \<open>if st.session_state.questions\<close> holds for a
  list that is not empty.
\<close>

definition start_interview ::
  "service \<Rightarrow> loads \<Rightarrow> pystr \<Rightarrow> session \<Rightarrow> world \<Rightarrow> session \<times> world" where
  "start_interview svc loads final_role s w =
     (let num_to_generate = num_questions_selected s;
          complexity_of_question = questions_complexity s;
          (generated, w1) =
             generate_questions_openai svc loads num_to_generate complexity_of_question final_role w;
          s1 = s\<lparr>questions := generated\<rparr>
      in case generated of
           Some (q # qs) \<Rightarrow>
             (s1\<lparr>answers := replicate (length (q # qs)) [],
                 current_question_index := 0,
                 evaluation_results := None,
                 interview_phase := Interviewing\<rparr>, w1)
         | _ \<Rightarrow> (s1, st_error (OfUi StartFailed) w1))"

subsection \<open>Interviewing: one run of the script\<close>

text \<open>
  A run of the interviewing branch sees the text area's value and at most one clicked
  button. \<open>typed\<close> is \<open>None\<close> while the user has not edited the text area, which then
  returns the stored answer it was given as \<open>value\<close>; the widget itself keeps the text
  within 1000 characters. \<open>st.progress(q_index / total_questions)\<close> raises for a negative
  index. The Previous button is drawn only when \<open>q_index > 0\<close>. \<open>st.rerun()\<close> ends the
  run. An exception ends the run too, and is the result \<open>Inl\<close>.
\<close>

datatype click = NoClick | Previous | NextOrFinish | EndEarly

definition interviewing_run ::
  "pystr option \<Rightarrow> click \<Rightarrow> session \<Rightarrow> world \<Rightarrow> exn + session \<times> world" where
  "interviewing_run typed button s w =
     (case questions s of
        None \<Rightarrow> Inl TypeError
      | Some qs \<Rightarrow>
          (let total_questions = int (length qs);
               q_index = current_question_index s
           in if total_questions = 0 \<or> q_index \<ge> total_questions then
                Inr (s\<lparr>interview_phase := Setup\<rparr>, st_error (OfUi NoQuestions) w)
              else
                (case py_index qs q_index of
                   Inl e \<Rightarrow> Inl e
                 | Inr current_question \<Rightarrow>
                     if q_index < 0 then Inl StreamlitAPIException
                     else
                     (case py_index (answers s) q_index of
                        Inl e \<Rightarrow> Inl e
                      | Inr stored \<Rightarrow>
                          (let answer = (case typed of None \<Rightarrow> stored | Some t \<Rightarrow> t)
                           in case py_setitem (answers s) q_index answer of
                                Inl e \<Rightarrow> Inl e
                              | Inr answers' \<Rightarrow>
                                  (let s1 = s\<lparr>answers := answers'\<rparr>;
                                       is_last_question = (q_index = total_questions - 1)
                                   in case button of
                                        NoClick \<Rightarrow> Inr (s1, w)
                                      | Previous \<Rightarrow>
                                          if q_index > 0 then
                                            Inr (s1\<lparr>current_question_index := q_index - 1\<rparr>, w)
                                          else Inr (s1, w)
                                      | NextOrFinish \<Rightarrow>
                                          if is_last_question then
                                            Inr (s1\<lparr>interview_phase := Finished\<rparr>, w)
                                          else
                                            Inr (s1\<lparr>current_question_index := q_index + 1\<rparr>, w)
                                      | EndEarly \<Rightarrow>
                                          Inr (s1\<lparr>interview_phase := Finished\<rparr>, w)))))))"

subsection \<open>Finished: the safety sweep and the reset button\<close>

definition flagged_placeholder :: pystr where
  "flagged_placeholder = py ''[Content Flagged as Unsafe]''"

text \<open>
  The loop \<open>for i, answer in enumerate(st.session_state.answers)\<close>. The list iterator
  reads position \<open>i\<close> of the list as it is at that moment; the body replaces elements
  and never changes the length. The loop state is \<open>all_answers_safe\<close>,
  \<open>unsafe_indices\<close>, the answers and the world.
\<close>

type_synonym sweep_state = "bool \<times> nat list \<times> pystr list \<times> world"

definition sweep_step :: "service \<Rightarrow> str_upper \<Rightarrow> nat \<Rightarrow> sweep_state \<Rightarrow> sweep_state" where
  "sweep_step svc upper i st =
     (case st of (all_answers_safe, unsafe_indices, answers_now, w) \<Rightarrow>
        (let answer = answers_now ! i
         in if answer \<noteq> [] \<and> strip answer \<noteq> [] then
              (case check_answer_safety svc upper answer w of
                 (Some False, w1) \<Rightarrow>
                   (False, unsafe_indices @ [i], answers_now[i := flagged_placeholder],
                    st_warning (OfUi (AnswerFlagged (i + 1))) w1)
               | (None, w1) \<Rightarrow>
                   (False, unsafe_indices, answers_now,
                    st_error (OfUi (SafetyNotVerified (i + 1))) w1)
               | (Some True, w1) \<Rightarrow> (all_answers_safe, unsafe_indices, answers_now, w1))
            else (all_answers_safe, unsafe_indices, answers_now, w)))"

text \<open>The loop state after the first \<open>k\<close> iterations.\<close>

definition sweep_upto ::
  "service \<Rightarrow> str_upper \<Rightarrow> pystr list \<Rightarrow> world \<Rightarrow> nat \<Rightarrow> sweep_state" where
  "sweep_upto svc upper ans w k = fold (sweep_step svc upper) [0..<k] (True, [], ans, w)"

text \<open>
  The whole sweep, up to \<open>if not all_answers_safe: st.error(...)\<close>: the two flags, the
  session with its answers as the loop left them, and the world.
\<close>

definition safety_sweep ::
  "service \<Rightarrow> str_upper \<Rightarrow> session \<Rightarrow> world \<Rightarrow> bool \<times> nat list \<times> session \<times> world" where
  "safety_sweep svc upper s w =
     (case sweep_upto svc upper (answers s) w (length (answers s)) of
        (all_answers_safe, unsafe_indices, answers', w') \<Rightarrow>
          (all_answers_safe, unsafe_indices, s\<lparr>answers := answers'\<rparr>,
           if \<not> all_answers_safe then st_error (OfUi SomeUnsafe) w' else w'))"

text \<open>The body of \<open>if st.button("Start New Interview")\<close>.\<close>

definition start_new_interview :: "session \<Rightarrow> session" where
  "start_new_interview s =
     s\<lparr>interview_phase := Setup,
       questions := Some [],
       answers := [],
       current_question_index := 0,
       evaluation_results := None,
       selected_option := py ''App Developer'',
       custom_role_input := [],
       effective_role := py ''App Developer'',
       num_questions_selected := 3\<rparr>"

section \<open>Notions used to state the properties\<close>

text \<open>
  The token the two checkers compare with their literals: \<open>content.strip().upper()\<close>
  when the call returned a response whose first choice has content, and \<open>None\<close> when the
  call raised or the response has no such content.
\<close>

definition reply_token :: "str_upper \<Rightarrow> api_result \<Rightarrow> pystr option" where
  "reply_token upper r =
     (case r of
        Raises e \<Rightarrow> None
      | Returns response \<Rightarrow> map_option (\<lambda>c. upper (strip c)) (truthy_content response))"

text \<open>
  The invariant of the interviewing phase: there is a question list, the answers are as
  many as the questions, and the current question index lies in \<open>[0, len(questions))\<close>.
\<close>

definition interviewing_invariant :: "session \<Rightarrow> bool" where
  "interviewing_invariant s =
     (case questions s of
        None \<Rightarrow> False
      | Some qs \<Rightarrow>
          length (answers s) = length qs
          \<and> 0 \<le> current_question_index s
          \<and> current_question_index s < int (length qs))"

text \<open>
  The parts of a state of the sweep, and the test the sweep applies before it checks an
  answer: \<open>answer and answer.strip()\<close>.
\<close>

definition all_safe_of :: "sweep_state \<Rightarrow> bool" where
  "all_safe_of st = fst st"

definition unsafe_of :: "sweep_state \<Rightarrow> nat list" where
  "unsafe_of st = fst (snd st)"

definition answers_of :: "sweep_state \<Rightarrow> pystr list" where
  "answers_of st = fst (snd (snd st))"

definition world_of :: "sweep_state \<Rightarrow> world" where
  "world_of st = snd (snd (snd st))"

definition answered :: "pystr \<Rightarrow> bool" where
  "answered a = (a \<noteq> [] \<and> strip a \<noteq> [])"

text \<open>
  What the checker returns for the answer at position \<open>i\<close> of the list the sweep started
  with, called in the world the sweep has reached at that position.
\<close>

definition verdict :: "service \<Rightarrow> str_upper \<Rightarrow> pystr list \<Rightarrow> world \<Rightarrow> nat \<Rightarrow> bool option" where
  "verdict svc upper ans w i =
     fst (check_answer_safety svc upper (ans ! i) (world_of (sweep_upto svc upper ans w i)))"

section \<open>Concrete inputs\<close>

text \<open>A world in which nothing has happened yet, and a service that is unreachable.\<close>

definition empty_world :: world where
  "empty_world = \<lparr>calls = [], page = [], console = []\<rparr>"

definition service_down :: service where
  "service_down history req = Raises (OtherException (py ''connection refused''))"

text \<open>A service that answers every request with one choice holding the given text.\<close>

definition service_replying :: "pystr \<Rightarrow> service" where
  "service_replying c history req = Returns (Response [Choice (Some (Message (Some c)))])"

text \<open>
  \<open>str.upper()\<close> on text of ASCII characters, where it turns the letters a to z into A
  to Z and leaves the rest.
\<close>

definition ascii_upper :: str_upper where
  "ascii_upper s = map (\<lambda>c. if 97 \<le> c \<and> c \<le> 122 then c - 32 else c) s"

text \<open>
  A decoder for the examples: the reply text \<open>two questions\<close> stands for the JSON object
  with the key \<open>questions\<close> and a list of two strings; other texts are not JSON.
\<close>

definition decode_example :: loads where
  "decode_example c =
     (if c = py ''two questions'' then
        Inr (JDict [(py ''questions'', JList [JStr (py ''Q1''), JStr (py ''Q2'')])])
      else Inl (JSONDecodeError (py ''Expecting value'')))"

text \<open>
  An evaluation of one question in which the grade and the overall grade are the JSON
  value \<open>true\<close>, and a decoder in which the reply text \<open>boolean grades\<close> stands for it.
\<close>

definition boolean_grades :: json where
  "boolean_grades =
     JDict [(py ''evaluations'',
               JList [JDict [(py ''question_index'', JInt 0), (py ''grade'', JBool True),
                             (py ''justification'', JStr (py ''Clear.''))]]),
            (py ''overall_grade'', JBool True),
            (py ''overall_justification'', JStr (py ''Good.''))]"

definition decode_evaluation :: loads where
  "decode_evaluation c =
     (if c = py ''boolean grades'' then Inr boolean_grades
      else Inl (JSONDecodeError (py ''Expecting value'')))"

text \<open>A session at the end of an interview with a custom role and hard questions.\<close>

definition finished_example :: session where
  "finished_example =
     \<lparr>interview_phase = Finished,
      questions = Some [py ''Q1'', py ''Q2'', py ''Q3''],
      answers = [py ''A1'', [], py ''A3''],
      current_question_index = 2,
      evaluation_results = None,
      num_questions_selected = 3,
      questions_complexity = py ''Hard'',
      selected_option = py ''Other...'',
      custom_role_input = py ''Nurse'',
      effective_role = py ''Nurse''\<rparr>"

text \<open>A session in the middle of an interview, at the second of three questions.\<close>

definition interviewing_example :: session where
  "interviewing_example =
     \<lparr>interview_phase = Interviewing,
      questions = Some [py ''Q1'', py ''Q2'', py ''Q3''],
      answers = [py ''A1'', [], []],
      current_question_index = 1,
      evaluation_results = None,
      num_questions_selected = 3,
      questions_complexity = py ''Easy'',
      selected_option = py ''Data Analyst'',
      custom_role_input = [],
      effective_role = py ''Data Analyst''\<rparr>"

section \<open>Properties\<close>

subsection \<open>Literals and stripping\<close>

lemma py_eq_iff: "py a = py b \<longleftrightarrow> a = b"
proof -
  have "inj (of_char :: char \<Rightarrow> nat)"
    by (rule inj_on_inverseI [where g = char_of]) simp
  then show ?thesis by (simp add: py_def inj_map_eq_map)
qed

lemma py_Nil: "py a = [] \<longleftrightarrow> a = []"
  by (simp add: py_def)

text \<open>The definitions that evaluate text on concrete input.\<close>

lemmas eval_text = py_def strip_def isspace_def ascii_upper_def

lemma strip_empty_iff: "strip s = [] \<longleftrightarrow> (\<forall>c\<in>set s. isspace c)"
proof
  assume e: "strip s = []"
  show "\<forall>c\<in>set s. isspace c"
  proof (rule ccontr)
    assume "\<not> (\<forall>c\<in>set s. isspace c)"
    then have ne: "dropWhile isspace s \<noteq> []" by simp
    then have "\<not> isspace (hd (dropWhile isspace s))" by (rule hd_dropWhile)
    moreover have "hd (dropWhile isspace s) \<in> set (rev (dropWhile isspace s))"
      using ne by simp
    ultimately have "dropWhile isspace (rev (dropWhile isspace s)) \<noteq> []"
      by auto
    with e show False by (simp add: strip_def)
  qed
next
  assume "\<forall>c\<in>set s. isspace c"
  then show "strip s = []" by (auto simp: strip_def dest: set_dropWhileD)
qed

subsection \<open>The answer safety checker on blank input\<close>

text \<open>
  Claim C9. For every input string that is empty or consists only of whitespace, as
  \<open>str.strip()\<close> reads whitespace, \<open>check_answer_safety\<close> returns the safe result \<open>True\<close>
  and makes no call to the service: it only prints one line on the console.
\<close>

theorem check_answer_safety_blank:
  "\<forall>c\<in>set answer_text. isspace c \<Longrightarrow>
     check_answer_safety svc upper answer_text w
       = (Some True, w\<lparr>console := console w @ [OfSafety SafetyEmpty]\<rparr>)
     \<and> calls (snd (check_answer_safety svc upper answer_text w)) = calls w"
  by (simp add: check_answer_safety_def strip_empty_iff print_def)

theorem check_answer_safety_blank_witness:
  "check_answer_safety service_down ascii_upper [0x20, 0x09, 0x0A, 0xA0, 0x85, 0x3000] empty_world
     = (Some True, \<lparr>calls = [], page = [], console = [OfSafety SafetyEmpty]\<rparr>)"
  using check_answer_safety_blank
    [of "[0x20, 0x09, 0x0A, 0xA0, 0x85, 0x3000]" service_down ascii_upper empty_world]
  by (simp add: isspace_def empty_world_def)

subsection \<open>The evaluator on lists it refuses\<close>

text \<open>
  Claim C10. Called with an empty question list, an empty answer list, or lists of
  unequal length, \<open>evaluate_answers_openai\<close> returns \<open>None\<close> at once: no call to the
  service is made and nothing is put on the page; two lines are printed on the console.
\<close>

theorem evaluate_rejects_bad_lists:
  "qs = [] \<or> ans = [] \<or> length qs \<noteq> length ans \<Longrightarrow>
     evaluate_answers_openai svc loads qs ans num_questions role w
       = (Inr None,
          w\<lparr>console := console w @ [OfEval (EvalStart role), OfEval EvalSkippedInvalid]\<rparr>)
     \<and> calls (snd (evaluate_answers_openai svc loads qs ans num_questions role w)) = calls w
     \<and> page (snd (evaluate_answers_openai svc loads qs ans num_questions role w)) = page w"
  by (auto simp add: evaluate_answers_openai_def print_def Let_def)

theorem evaluate_rejects_bad_lists_witness:
  "evaluate_answers_openai service_down decode_example [py ''Q1'', py ''Q2''] [py ''A1''] 2
       (py ''General'') empty_world
     = (Inr None, \<lparr>calls = [], page = [],
          console = [OfEval (EvalStart (py ''General'')), OfEval EvalSkippedInvalid]\<rparr>)"
  using evaluate_rejects_bad_lists
    [of "[py ''Q1'', py ''Q2'']" "[py ''A1'']" service_down decode_example 2 "py ''General''"
        empty_world]
  by (simp add: empty_world_def)

subsection \<open>The evaluator when nothing was answered\<close>

lemma no_valid_answers:
  assumes "\<forall>a\<in>set ans. \<forall>c\<in>set a. isspace c"
  shows "\<not> list_ex (\<lambda>entry. snd entry \<noteq> None) (map transcript_entry (zip qs ans))"
proof -
  have "snd (transcript_entry qa) = None" if "qa \<in> set (zip qs ans)" for qa
  proof -
    have "snd qa \<in> set ans"
      using that set_zip_rightD [of "fst qa" "snd qa" qs ans] by simp
    then have "strip (snd qa) = []" using assms by (simp add: strip_empty_iff)
    then show ?thesis by (simp add: transcript_entry_def)
  qed
  then show ?thesis by (auto simp: list_ex_iff)
qed

text \<open>
  Claim C6, as the code has it. When the question list is not empty, the answer list has
  the same length and every answer is empty or whitespace-only, as \<open>str.strip()\<close> reads
  whitespace, \<open>evaluate_answers_openai\<close> returns the synthetic evaluation: one record for
  each question, with its index, grade 1 and the justification \<open>Not answered\<close>, an
  overall grade of 1 and the overall justification that no answers were provided. No
  call to the service is made; one warning is put on the page.
\<close>

theorem evaluate_all_blank:
  "qs \<noteq> [] \<Longrightarrow> length qs = length ans \<Longrightarrow> \<forall>a\<in>set ans. \<forall>c\<in>set a. isspace c \<Longrightarrow>
     fst (evaluate_answers_openai svc loads qs ans num_questions role w)
       = Inr (Some (JDict
           [(py ''evaluations'',
               JList (map (\<lambda>i. JDict [(py ''question_index'', JInt (int i)),
                                       (py ''grade'', JInt 1),
                                       (py ''justification'', JStr (py ''Not answered''))])
                          [0..<length qs])),
            (py ''overall_grade'', JInt 1),
            (py ''overall_justification'',
               JStr (py ''No answers were provided for evaluation.''))]))
     \<and> calls (snd (evaluate_answers_openai svc loads qs ans num_questions role w)) = calls w
     \<and> page (snd (evaluate_answers_openai svc loads qs ans num_questions role w))
         = page w @ [(Warning, OfEval EvalNoAnswers)]"
proof -
  assume a: "qs \<noteq> []" "length qs = length ans" "\<forall>a\<in>set ans. \<forall>c\<in>set a. isspace c"
  then have b: "ans \<noteq> []" by auto
  have ne: "no_answers_evaluation (length qs) = JDict
           [(py ''evaluations'',
               JList (map (\<lambda>i. JDict [(py ''question_index'', JInt (int i)),
                                       (py ''grade'', JInt 1),
                                       (py ''justification'', JStr (py ''Not answered''))])
                          [0..<length qs])),
            (py ''overall_grade'', JInt 1),
            (py ''overall_justification'',
               JStr (py ''No answers were provided for evaluation.''))]"
    unfolding no_answers_evaluation_def not_answered_def by (rule refl)
  have "evaluate_answers_openai svc loads qs ans num_questions role w
     = (Inr (Some (no_answers_evaluation (length qs))),
        st_warning (OfEval EvalNoAnswers)
          (print (OfEval EvalSkippedNoAnswers) (print (OfEval (EvalStart role)) w)))"
    using a b no_valid_answers [OF a(3), of qs]
    by (simp add: evaluate_answers_openai_def Let_def)
  then show ?thesis
    by (simp add: ne print_def st_warning_def)
qed

theorem evaluate_all_blank_witness:
  "fst (evaluate_answers_openai service_down decode_example [py ''Q1'', py ''Q2'']
          [[], [0x20, 0xA0, 0x2003]] 2 (py ''General'') empty_world)
     = Inr (Some (JDict
           [(py ''evaluations'',
               JList [JDict [(py ''question_index'', JInt 0), (py ''grade'', JInt 1),
                             (py ''justification'', JStr (py ''Not answered''))],
                      JDict [(py ''question_index'', JInt 1), (py ''grade'', JInt 1),
                             (py ''justification'', JStr (py ''Not answered''))]]),
            (py ''overall_grade'', JInt 1),
            (py ''overall_justification'',
               JStr (py ''No answers were provided for evaluation.''))]))
   \<and> calls (snd (evaluate_answers_openai service_down decode_example [py ''Q1'', py ''Q2'']
                   [[], [0x20, 0xA0, 0x2003]] 2 (py ''General'') empty_world)) = []"
proof -
  have u: "[0..<2] = [0, Suc 0]" by (simp add: upt_rec)
  show ?thesis
    using evaluate_all_blank
      [of "[py ''Q1'', py ''Q2'']" "[[], [0x20, 0xA0, 0x2003]]" service_down decode_example 2
          "py ''General''" empty_world]
    by (simp add: isspace_def empty_world_def u)
qed

text \<open>
  The claim without the condition on the lists fails: with no question and no answer,
  and with two questions and a single blank answer, every answer passed is blank and the
  result is \<open>None\<close>.
\<close>

theorem evaluate_all_blank_refused:
  "fst (evaluate_answers_openai service_down decode_example [] [] 3 (py ''General'') empty_world)
     = Inr None
   \<and> fst (evaluate_answers_openai service_down decode_example [py ''Q1'', py ''Q2''] [[0x20]] 2
            (py ''General'') empty_world) = Inr None"
  by (simp add: evaluate_answers_openai_def Let_def)

subsection \<open>The reset button\<close>

text \<open>
  Claim C2, as the code has it. \<open>Start New Interview\<close> restores the phase, the questions,
  the answers, the current question index, the evaluation result, the selected option,
  the custom role text and the effective role to the values a new session starts with,
  and leaves the complexity label as it was.
\<close>

theorem reset_restores:
  "interview_phase (start_new_interview s) = interview_phase session_defaults
   \<and> questions (start_new_interview s) = questions session_defaults
   \<and> answers (start_new_interview s) = answers session_defaults
   \<and> current_question_index (start_new_interview s) = current_question_index session_defaults
   \<and> evaluation_results (start_new_interview s) = evaluation_results session_defaults
   \<and> selected_option (start_new_interview s) = selected_option session_defaults
   \<and> custom_role_input (start_new_interview s) = custom_role_input session_defaults
   \<and> effective_role (start_new_interview s) = effective_role session_defaults
   \<and> questions_complexity (start_new_interview s) = questions_complexity s"
  by (simp add: start_new_interview_def session_defaults_def)

text \<open>
  Not every field returns to its default: after a hard interview the reset session still
  says \<open>Hard\<close> where a new session says \<open>Medium\<close>, and its question count is 3 where a
  new session has 5.
\<close>

theorem reset_not_defaults:
  "start_new_interview finished_example \<noteq> session_defaults
   \<and> questions_complexity (start_new_interview finished_example) = py ''Hard''
   \<and> questions_complexity session_defaults = py ''Medium''
   \<and> num_questions_selected (start_new_interview finished_example) = 3
   \<and> num_questions_selected session_defaults = 5"
  by (simp add: start_new_interview_def finished_example_def session_defaults_def)

subsection \<open>What the question generator returns\<close>

lemma generate_at_most_requested:
  "0 \<le> n \<Longrightarrow> fst (generate_questions_openai svc loads n c role w) = Some qs \<Longrightarrow>
     length qs \<le> nat n"
  by (auto simp add: generate_questions_openai_def create_def py_prefix_def Let_def
      split: api_result.splits sum.splits option.splits json.splits exn.splits if_splits)

text \<open>
  Claim C1 does not hold of the code. Asked for three questions, with a reply whose
  \<open>questions\<close> list holds two strings, \<open>generate_questions_openai\<close> returns those two
  strings: a list that is neither empty nor of the requested length.
\<close>

theorem generate_partial_list:
  "fst (generate_questions_openai (service_replying (py ''two questions'')) decode_example 3
          (py ''Easy'') (py ''Data Analyst'') empty_world) = Some [py ''Q1'', py ''Q2'']"
  by (simp add: generate_questions_openai_def create_def service_replying_def first_content_def
      decode_example_def py_prefix_def Let_def)

text \<open>
  Claim C7 does not hold of \<open>generate_questions_openai\<close>. When the service raises, the
  exception is caught, but the handler only prints on the console: the page receives no
  message and the function ends without a \<open>return\<close>, so its value is \<open>None\<close>.
\<close>

theorem generate_failure_console_only:
  "generate_questions_openai service_down decode_example 3 (py ''Easy'') (py ''Data Analyst'')
       empty_world
     = (None,
        \<lparr>calls = [QuestionsRequest 3 (py ''Easy'') (py ''Data Analyst'')],
         page = [],
         console = [OfGen (GenStart 3 (py ''Data Analyst'')),
                    OfGen (GenFailed (OtherException (py ''connection refused'')))]\<rparr>)"
  by (simp add: generate_questions_openai_def create_def service_down_def print_def
      empty_world_def Let_def)

text \<open>
  The same failure in general, and in the two checkers, whose handlers do put an error
  on the page.
\<close>

lemma generate_service_failure:
  "svc (calls w) (QuestionsRequest n c role) = Raises e \<Longrightarrow>
     fst (generate_questions_openai svc loads n c role w) = None
     \<and> page (snd (generate_questions_openai svc loads n c role w)) = page w"
  by (simp add: generate_questions_openai_def create_def print_def Let_def)

lemma check_role_service_failure:
  "svc (calls w) (RoleCheckRequest role) = Raises e \<Longrightarrow>
     fst (check_role svc upper role w) = None
     \<and> page (snd (check_role svc upper role w)) = page w @ [(Error, OfRole (RoleFailed e))]"
  by (simp add: check_role_def create_def print_def st_error_def Let_def)

lemma check_answer_safety_service_failure:
  "strip a \<noteq> [] \<Longrightarrow> svc (calls w) (SafetyRequest a) = Raises e \<Longrightarrow>
     fst (check_answer_safety svc upper a w) = None
     \<and> page (snd (check_answer_safety svc upper a w))
         = page w @ [(Error, OfSafety (SafetyFailed e))]"
  by (auto simp add: check_answer_safety_def create_def print_def st_error_def Let_def strip_def)

subsection \<open>The outcomes of the two checkers\<close>

text \<open>
  Claim C5, as the code has it. For a role that is not empty, \<open>check_role\<close> returns the
  role unchanged exactly when the token is \<open>VALID\<close>, the empty string exactly when it is
  \<open>INVALID\<close>, and \<open>None\<close> in every other case: the service raised, the response has no
  content, or the token is neither literal. For an answer that is not blank,
  \<open>check_answer_safety\<close> returns \<open>True\<close> exactly when the token is \<open>SAFE\<close>, and \<open>None\<close>
  exactly when the service raised or the response has no content; every other token,
  \<open>UNSAFE\<close> or not, gives \<open>False\<close>. This holds whatever \<open>str.upper()\<close> computes.
\<close>

theorem checker_outcomes:
  "role \<noteq> [] \<Longrightarrow> strip a \<noteq> [] \<Longrightarrow>
     (let t = reply_token upper (svc (calls w) (RoleCheckRequest role));
          r = fst (check_role svc upper role w)
      in (r = Some role \<longleftrightarrow> t = Some (py ''VALID''))
         \<and> (r = Some [] \<longleftrightarrow> t = Some (py ''INVALID''))
         \<and> (r = None \<longleftrightarrow> t \<noteq> Some (py ''VALID'') \<and> t \<noteq> Some (py ''INVALID'')))
     \<and> (let t = reply_token upper (svc (calls w) (SafetyRequest a));
             r = fst (check_answer_safety svc upper a w)
         in (r = Some True \<longleftrightarrow> t = Some (py ''SAFE''))
            \<and> (r = Some False \<longleftrightarrow> t \<noteq> None \<and> t \<noteq> Some (py ''SAFE''))
            \<and> (r = None \<longleftrightarrow> t = None))"
proof -
  assume role: "role \<noteq> []" and a: "strip a \<noteq> []"
  then have a': "a \<noteq> []" by (auto simp: strip_def)
  have 1: "(let t = reply_token upper (svc (calls w) (RoleCheckRequest role));
          r = fst (check_role svc upper role w)
      in (r = Some role \<longleftrightarrow> t = Some (py ''VALID''))
         \<and> (r = Some [] \<longleftrightarrow> t = Some (py ''INVALID''))
         \<and> (r = None \<longleftrightarrow> t \<noteq> Some (py ''VALID'') \<and> t \<noteq> Some (py ''INVALID'')))"
    using role
    by (auto simp add: check_role_def create_def print_def reply_token_def Let_def py_eq_iff
        split: api_result.splits option.splits)
  have 2: "(let t = reply_token upper (svc (calls w) (SafetyRequest a));
             r = fst (check_answer_safety svc upper a w)
         in (r = Some True \<longleftrightarrow> t = Some (py ''SAFE''))
            \<and> (r = Some False \<longleftrightarrow> t \<noteq> None \<and> t \<noteq> Some (py ''SAFE''))
            \<and> (r = None \<longleftrightarrow> t = None))"
    using a a'
    by (auto simp add: check_answer_safety_def create_def print_def reply_token_def Let_def
        py_eq_iff split: api_result.splits option.splits)
  from 1 2 show ?thesis by (rule conjI)
qed

theorem checker_outcomes_witness:
  "fst (check_role (service_replying ([0xA0] @ py ''valid'' @ [0x2003])) ascii_upper (py ''Nurse'')
          empty_world) = Some (py ''Nurse'')
   \<and> fst (check_answer_safety (service_replying ([0xA0] @ py ''valid'' @ [0x2003])) ascii_upper
            (py ''hello'') empty_world) = Some False"
proof -
  let ?svc = "service_replying ([0xA0] @ py ''valid'' @ [0x2003])"
  have 0: "py ''Nurse'' \<noteq> []" by (simp add: py_Nil)
  have 1: "strip (py ''hello'') \<noteq> []" by (simp add: eval_text)
  have 2: "reply_token ascii_upper (?svc (calls empty_world) (RoleCheckRequest (py ''Nurse'')))
            = Some (py ''VALID'')"
    by (simp add: reply_token_def service_replying_def truthy_content_def eval_text)
  have 3: "reply_token ascii_upper (?svc (calls empty_world) (SafetyRequest (py ''hello'')))
            = Some (py ''VALID'')"
    by (simp add: reply_token_def service_replying_def truthy_content_def eval_text)
  have 4: "py ''VALID'' \<noteq> py ''SAFE''" by (simp add: py_eq_iff)
  show ?thesis
    using checker_outcomes [of "py ''Nurse''" "py ''hello''" ascii_upper ?svc empty_world]
      0 1 2 3 4
    by (simp add: Let_def)
qed

text \<open>
  The safety checker does not keep an unparseable reply apart from a rejection: the
  reply \<open>maybe\<close> gives \<open>False\<close>, as the reply \<open>UNSAFE\<close> does.
\<close>

theorem unclear_safety_reply_is_unsafe:
  "fst (check_answer_safety (service_replying (py ''maybe'')) ascii_upper (py ''hello'')
          empty_world) = Some False
   \<and> fst (check_answer_safety (service_replying (py ''UNSAFE'')) ascii_upper (py ''hello'')
            empty_world) = Some False"
  by (simp add: check_answer_safety_def create_def service_replying_def truthy_content_def
      Let_def eval_text)

subsection \<open>The evaluator on a reply of the service\<close>

lemma some_valid_answer:
  assumes "length qs = length ans" "\<exists>a\<in>set ans. strip a \<noteq> []"
  shows "list_ex (\<lambda>entry. snd entry \<noteq> None) (map transcript_entry (zip qs ans))"
proof -
  from assms(2) obtain a where a: "a \<in> set ans" "strip a \<noteq> []" by blast
  then obtain i where i: "i < length ans" "ans ! i = a" by (auto simp: in_set_conv_nth)
  then have "(qs ! i, a) \<in> set (zip qs ans)"
    using assms(1) by (auto simp: set_zip)
  moreover have "snd (transcript_entry (qs ! i, a)) \<noteq> None"
    using a(2) by (simp add: transcript_entry_def)
  ultimately show ?thesis by (auto simp: list_ex_iff)
qed

text \<open>
  A call that reaches the service (the lists are not empty, of equal length, and some
  answer is not blank) and gets a reply with content: what \<open>json.loads\<close> and the
  validation make of the content decides the result.
\<close>

lemma evaluate_decoded:
  assumes "qs \<noteq> []" "length qs = length ans" "\<exists>a\<in>set ans. strip a \<noteq> []"
    and "svc (calls w) (EvaluationRequest role (map transcript_entry (zip qs ans)) n)
           = Returns response"
    and "first_content response = Inr (Some c)"
  shows "evaluate_answers_openai svc loads qs ans n role w =
     (let w3 = print (OfEval (EvalRaw (Some c)))
                 ((print (OfEval (EvalStart role)) w)
                    \<lparr>calls := calls w @ [EvaluationRequest role (map transcript_entry (zip qs ans)) n]\<rparr>)
      in case loads c of
           Inl e \<Rightarrow> eval_except e (Some (Some c)) w3
         | Inr v \<Rightarrow>
             (case validate v (length qs) of
                Some val_err \<Rightarrow> eval_except (ValueError val_err) (Some (Some c)) w3
              | None \<Rightarrow> (Inr (Some v), print (OfEval EvalValidated) w3)))"
proof -
  have "ans \<noteq> []" using assms(1,2) by auto
  then show ?thesis
    using assms some_valid_answer [OF assms(2,3)]
    by (simp add: evaluate_answers_openai_def create_def print_def Let_def)
qed

text \<open>
  The two rejections the claim names first do hold: an \<open>evaluations\<close> list whose length
  differs from the number of questions, and an item whose \<open>question_index\<close> is an integer
  other than its position, fail the validation.
\<close>

lemma check_items_bad:
  "i < length items \<Longrightarrow> \<not> item_ok (k + i) (items ! i) \<Longrightarrow> check_items k items \<noteq> None"
proof (induction items arbitrary: k i)
  case Nil
  then show ?case by simp
next
  case (Cons item items)
  show ?case
  proof (cases i)
    case 0
    then show ?thesis using Cons.prems by simp
  next
    case (Suc j)
    then have "j < length items" "\<not> item_ok (Suc k + j) (items ! j)"
      using Cons.prems by simp_all
    from Cons.IH [OF this] show ?thesis by simp
  qed
qed

lemma validate_length_mismatch:
  "lookup v (py ''evaluations'') = Some (JList items) \<Longrightarrow> length items \<noteq> n \<Longrightarrow>
     validate v n \<noteq> None"
  by (cases v) (auto simp: validate_def)

lemma validate_index_mismatch:
  assumes "lookup v (py ''evaluations'') = Some (JList items)" "i < length items"
    and "lookup (items ! i) (py ''question_index'') = Some (JInt k)" "k \<noteq> int i"
  shows "validate v n \<noteq> None"
proof -
  have "\<not> item_ok (0 + i) (items ! i)" using assms(3,4) by (simp add: item_ok_def)
  from check_items_bad [OF assms(2) this] show ?thesis
    using assms(1) by (cases v) (auto simp: validate_def)
qed

text \<open>
  Claim C4 does not hold of the code where it says "wrongly typed". The prompt asks for
  an integer \<open>grade\<close> and an integer \<open>overall_grade\<close>, and the validation tests them with
  \<open>isinstance(..., int)\<close>, which a Python \<open>bool\<close> passes. A reply that decodes to an
  evaluation whose grade and overall grade are the JSON value \<open>true\<close> is not rejected:
  it is returned as the evaluation, and the page receives no error.
\<close>

theorem evaluate_accepts_boolean_grades:
  "fst (evaluate_answers_openai (service_replying (py ''boolean grades'')) decode_evaluation
          [py ''Q1''] [py ''A1''] 1 (py ''General'') empty_world) = Inr (Some boolean_grades)
   \<and> page (snd (evaluate_answers_openai (service_replying (py ''boolean grades''))
                  decode_evaluation [py ''Q1''] [py ''A1''] 1 (py ''General'') empty_world)) = []"
proof -
  let ?svc = "service_replying (py ''boolean grades'')"
  let ?r = "Response [Choice (Some (Message (Some (py ''boolean grades''))))]"
  have q: "[py ''Q1''] \<noteq> []" "length [py ''Q1''] = length [py ''A1'']" by simp_all
  have s: "\<exists>a\<in>set [py ''A1'']. strip a \<noteq> []" by (simp add: eval_text)
  have r: "?svc (calls empty_world)
             (EvaluationRequest (py ''General'')
                (map transcript_entry (zip [py ''Q1''] [py ''A1''])) 1) = Returns ?r"
    by (simp add: service_replying_def)
  have f: "first_content ?r = Inr (Some (py ''boolean grades''))"
    by (simp add: first_content_def)
  have v: "validate boolean_grades (Suc 0) = None"
    by (simp add: validate_def boolean_grades_def item_ok_def py_eq_iff)
  show ?thesis
    using evaluate_decoded
      [where qs = "[py ''Q1'']" and ans = "[py ''A1'']" and svc = ?svc and w = empty_world
         and role = "py ''General''" and n = 1 and response = ?r and c = "py ''boolean grades''"
         and loads = decode_evaluation, OF q s r f]
    by (simp add: decode_evaluation_def v Let_def print_def empty_world_def)
qed

subsection \<open>A failing service in the evaluator\<close>

text \<open>
  When the service raises an exception that is not a \<open>ValueError\<close>, the handler of
  \<open>evaluate_answers_openai\<close>, like those of the two checkers, puts an error on the page
  and returns \<open>None\<close>. When the service raises a \<open>JSONDecodeError\<close>, the handler of that
  class reads \<open>evaluation_content\<close>, which was never assigned: after one error on the
  page an \<open>UnboundLocalError\<close> leaves the function.
\<close>

lemma evaluate_service_failure:
  assumes "qs \<noteq> []" "length qs = length ans" "\<exists>a\<in>set ans. strip a \<noteq> []"
    and "svc (calls w) (EvaluationRequest role (map transcript_entry (zip qs ans)) n)
           = Raises (OtherException e)"
  shows "fst (evaluate_answers_openai svc loads qs ans n role w) = Inr None
     \<and> page (snd (evaluate_answers_openai svc loads qs ans n role w))
         = page w @ [(Error, OfEval (EvalFailed (OtherException e)))]"
proof -
  have "ans \<noteq> []" using assms(1,2) by auto
  then show ?thesis
    using assms some_valid_answer [OF assms(2,3)]
    by (simp add: evaluate_answers_openai_def create_def print_def st_error_def
        eval_except_def Let_def)
qed

lemma evaluate_service_decode_error_escapes:
  assumes "qs \<noteq> []" "length qs = length ans" "\<exists>a\<in>set ans. strip a \<noteq> []"
    and "svc (calls w) (EvaluationRequest role (map transcript_entry (zip qs ans)) n)
           = Raises (JSONDecodeError e)"
  shows "fst (evaluate_answers_openai svc loads qs ans n role w) = Inl UnboundLocalError
     \<and> page (snd (evaluate_answers_openai svc loads qs ans n role w))
         = page w @ [(Error, OfEval (EvalNotJSON e))]"
proof -
  have "ans \<noteq> []" using assms(1,2) by auto
  then show ?thesis
    using assms some_valid_answer [OF assms(2,3)]
    by (simp add: evaluate_answers_openai_def create_def print_def st_error_def
        eval_except_def Let_def)
qed

subsection \<open>The invariant of the interviewing phase\<close>

lemma start_interview_generated:
  assumes "fst (generate_questions_openai svc loads (num_questions_selected s)
                  (questions_complexity s) final_role w) = Some (q # qs)"
  shows "fst (start_interview svc loads final_role s w)
           = s\<lparr>questions := Some (q # qs),
                answers := replicate (length (q # qs)) [],
                current_question_index := 0,
                evaluation_results := None,
                interview_phase := Interviewing\<rparr>"
proof -
  obtain g w1 where p: "generate_questions_openai svc loads (num_questions_selected s)
                  (questions_complexity s) final_role w = (g, w1)"
    by (cases "generate_questions_openai svc loads (num_questions_selected s)
                  (questions_complexity s) final_role w")
  with assms have "g = Some (q # qs)" by simp
  with p show ?thesis by (simp add: start_interview_def Let_def)
qed

lemma start_interview_otherwise:
  assumes "\<not> (\<exists>q qs. fst (generate_questions_openai svc loads (num_questions_selected s)
                  (questions_complexity s) final_role w) = Some (q # qs))"
  shows "interview_phase (fst (start_interview svc loads final_role s w)) = interview_phase s"
  using assms
  by (auto simp add: start_interview_def Let_def split: prod.splits option.splits list.splits)

lemma interviewing_run_preserves:
  assumes "interviewing_invariant s"
  shows "\<exists>s' w'. interviewing_run typed button s w = Inr (s', w')
           \<and> interviewing_invariant s'
           \<and> questions s' = questions s
           \<and> (interview_phase s = Interviewing \<longrightarrow> interview_phase s' \<noteq> Setup)"
proof -
  from assms obtain qs where qs: "questions s = Some qs"
    and len: "length (answers s) = length qs"
    and lo: "0 \<le> current_question_index s"
    and hi: "current_question_index s < int (length qs)"
    by (auto simp: interviewing_invariant_def split: option.splits)
  show ?thesis
    using qs len lo hi
    by (cases button)
       (auto simp: interviewing_run_def interviewing_invariant_def py_index_def py_setitem_def
          py_norm_def Let_def split: option.splits)
qed

text \<open>
  Claim C8. When the question generator returns a list that is not empty, the start
  button moves the session to the interviewing phase with these questions, one empty
  answer for each question and index 0; whenever the start button brings a session into
  the interviewing phase, the invariant holds: \<open>len(answers) == len(questions)\<close> and
  \<open>0 <= current_question_index < len(questions)\<close>. Under the invariant, every run of the
  interviewing branch (storing the text area's value, with Previous, Submit and Next or
  Finish, End Early or no button clicked) ends without exception in a session in which
  the invariant holds again.
\<close>

theorem interviewing_invariant_holds:
  "(\<forall>q qs. fst (generate_questions_openai svc loads (num_questions_selected s)
                 (questions_complexity s) final_role w) = Some (q # qs) \<longrightarrow>
       interview_phase (fst (start_interview svc loads final_role s w)) = Interviewing
       \<and> questions (fst (start_interview svc loads final_role s w)) = Some (q # qs)
       \<and> answers (fst (start_interview svc loads final_role s w)) = replicate (length (q # qs)) []
       \<and> current_question_index (fst (start_interview svc loads final_role s w)) = 0)
   \<and> (interview_phase s \<noteq> Interviewing
        \<and> interview_phase (fst (start_interview svc loads final_role s w)) = Interviewing \<longrightarrow>
       interviewing_invariant (fst (start_interview svc loads final_role s w)))
   \<and> (interviewing_invariant s \<longrightarrow>
        (\<exists>s' w'. interviewing_run typed button s w = Inr (s', w') \<and> interviewing_invariant s'))"
proof (intro conjI allI impI)
  fix q qs
  assume g: "fst (generate_questions_openai svc loads (num_questions_selected s)
                 (questions_complexity s) final_role w) = Some (q # qs)"
  note e = start_interview_generated [OF g]
  show "interview_phase (fst (start_interview svc loads final_role s w)) = Interviewing"
    by (simp add: e)
  show "questions (fst (start_interview svc loads final_role s w)) = Some (q # qs)"
    by (simp add: e)
  show "answers (fst (start_interview svc loads final_role s w)) = replicate (length (q # qs)) []"
    by (simp add: e)
  show "current_question_index (fst (start_interview svc loads final_role s w)) = 0"
    by (simp add: e)
next
  assume a: "interview_phase s \<noteq> Interviewing
        \<and> interview_phase (fst (start_interview svc loads final_role s w)) = Interviewing"
  have "\<exists>q qs. fst (generate_questions_openai svc loads (num_questions_selected s)
                 (questions_complexity s) final_role w) = Some (q # qs)"
  proof (rule ccontr)
    assume "\<not> ?thesis"
    from start_interview_otherwise [OF this] a show False by simp
  qed
  then obtain q qs where g: "fst (generate_questions_openai svc loads (num_questions_selected s)
                 (questions_complexity s) final_role w) = Some (q # qs)"
    by blast
  show "interviewing_invariant (fst (start_interview svc loads final_role s w))"
    by (simp add: start_interview_generated [OF g] interviewing_invariant_def)
next
  assume "interviewing_invariant s"
  then show "\<exists>s' w'. interviewing_run typed button s w = Inr (s', w') \<and> interviewing_invariant s'"
    using interviewing_run_preserves [of s typed button w] by blast
qed

theorem interviewing_invariant_holds_witness:
  "interviewing_invariant
     (fst (start_interview (service_replying (py ''two questions'')) decode_example (py ''Data Analyst'')
             session_defaults empty_world))
   \<and> (\<exists>s' w'. interviewing_run (Some (py ''A2'')) NextOrFinish interviewing_example empty_world
                 = Inr (s', w') \<and> interviewing_invariant s')"
proof -
  have g: "fst (generate_questions_openai (service_replying (py ''two questions'')) decode_example
             (num_questions_selected session_defaults) (questions_complexity session_defaults)
             (py ''Data Analyst'') empty_world) = Some [py ''Q1'', py ''Q2'']"
    by (simp add: generate_questions_openai_def create_def service_replying_def first_content_def
      decode_example_def py_prefix_def Let_def session_defaults_def)
  have p: "interview_phase session_defaults \<noteq> Interviewing" by (simp add: session_defaults_def)
  have i: "interviewing_invariant interviewing_example"
    by (simp add: interviewing_invariant_def interviewing_example_def)
  note t1 = interviewing_invariant_holds
      [of "service_replying (py ''two questions'')" decode_example session_defaults "py ''Data Analyst''"
          empty_world "Some (py ''A2'')" NextOrFinish]
  note t2 = interviewing_invariant_holds
      [of "service_replying (py ''two questions'')" decode_example interviewing_example "py ''Data Analyst''"
          empty_world "Some (py ''A2'')" NextOrFinish]
  have a: "interviewing_invariant
     (fst (start_interview (service_replying (py ''two questions'')) decode_example (py ''Data Analyst'')
             session_defaults empty_world))"
    using t1 g p by simp
  have b: "\<exists>s' w'. interviewing_run (Some (py ''A2'')) NextOrFinish interviewing_example empty_world
                 = Inr (s', w') \<and> interviewing_invariant s'"
    using t2 i by blast
  from a b show ?thesis by (rule conjI)
qed

subsection \<open>The safety sweep of the finished phase\<close>

lemma check_answer_safety_calls:
  "calls (snd (check_answer_safety svc upper a w))
     = calls w @ (if answered a then [SafetyRequest a] else [])"
  by (auto simp: check_answer_safety_def answered_def create_def print_def st_error_def
        st_warning_def Let_def split: api_result.splits option.splits)

lemma sweep_step_answers:
  "answers_of (sweep_step svc upper i st)
     = (if answered (answers_of st ! i)
           \<and> fst (check_answer_safety svc upper (answers_of st ! i) (world_of st)) = Some False
        then (answers_of st)[i := flagged_placeholder] else answers_of st)"
  by (cases st; cases "check_answer_safety svc upper (answers_of st ! i) (world_of st)")
     (auto simp: sweep_step_def answers_of_def world_of_def answered_def Let_def
        split: option.splits bool.splits)

lemma sweep_step_unsafe:
  "unsafe_of (sweep_step svc upper i st)
     = unsafe_of st @
       (if answered (answers_of st ! i)
           \<and> fst (check_answer_safety svc upper (answers_of st ! i) (world_of st)) = Some False
        then [i] else [])"
  by (cases st; cases "check_answer_safety svc upper (answers_of st ! i) (world_of st)")
     (auto simp: sweep_step_def answers_of_def world_of_def unsafe_of_def answered_def Let_def
        split: option.splits bool.splits)

lemma sweep_step_all_safe:
  "all_safe_of (sweep_step svc upper i st)
     \<longleftrightarrow> all_safe_of st
         \<and> (answered (answers_of st ! i) \<longrightarrow>
              fst (check_answer_safety svc upper (answers_of st ! i) (world_of st)) = Some True)"
  by (cases st; cases "check_answer_safety svc upper (answers_of st ! i) (world_of st)")
     (auto simp: sweep_step_def answers_of_def world_of_def all_safe_of_def answered_def Let_def
        split: option.splits bool.splits)

lemma sweep_step_calls:
  "calls (world_of (sweep_step svc upper i st))
     = calls (world_of st)
       @ (if answered (answers_of st ! i) then [SafetyRequest (answers_of st ! i)] else [])"
proof (cases st)
  case (fields safe unsafe ans w)
  obtain r w1 where c: "check_answer_safety svc upper (ans ! i) w = (r, w1)"
    by (cases "check_answer_safety svc upper (ans ! i) w")
  then have "calls w1 = calls w @ (if answered (ans ! i) then [SafetyRequest (ans ! i)] else [])"
    using check_answer_safety_calls [of svc upper "ans ! i" w] by simp
  then show ?thesis using fields c
    by (auto simp: sweep_step_def answers_of_def world_of_def answered_def Let_def
          st_warning_def st_error_def split: option.splits bool.splits)
qed

lemma sweep_upto_Suc:
  "sweep_upto svc upper ans w (Suc k) = sweep_step svc upper k (sweep_upto svc upper ans w k)"
  by (simp add: sweep_upto_def)

lemma sweep_upto_answers:
  "k \<le> length ans \<Longrightarrow>
     length (answers_of (sweep_upto svc upper ans w k)) = length ans
     \<and> (\<forall>j<length ans. answers_of (sweep_upto svc upper ans w k) ! j
           = (if j < k \<and> answered (ans ! j) \<and> verdict svc upper ans w j = Some False
              then flagged_placeholder else ans ! j))"
proof (induction k)
  case 0
  then show ?case by (simp add: sweep_upto_def answers_of_def)
next
  case (Suc k)
  then have IH: "length (answers_of (sweep_upto svc upper ans w k)) = length ans"
    "\<And>j. j < length ans \<Longrightarrow> answers_of (sweep_upto svc upper ans w k) ! j
           = (if j < k \<and> answered (ans ! j) \<and> verdict svc upper ans w j = Some False
              then flagged_placeholder else ans ! j)"
    and k: "k < length ans" by auto
  have cur: "answers_of (sweep_upto svc upper ans w k) ! k = ans ! k" using IH(2) [OF k] by simp
  show ?case
  proof (intro conjI allI impI)
    show "length (answers_of (sweep_upto svc upper ans w (Suc k))) = length ans"
      by (simp add: sweep_upto_Suc sweep_step_answers IH(1))
    fix j assume j: "j < length ans"
    show "answers_of (sweep_upto svc upper ans w (Suc k)) ! j
           = (if j < Suc k \<and> answered (ans ! j) \<and> verdict svc upper ans w j = Some False
              then flagged_placeholder else ans ! j)"
    proof (cases "j = k")
      case True
      then show ?thesis using k
        by (simp add: sweep_upto_Suc sweep_step_answers cur IH(1) verdict_def)
    next
      case False
      then have "j < Suc k \<longleftrightarrow> j < k" by auto
      then show ?thesis using False j
        by (simp add: sweep_upto_Suc sweep_step_answers cur IH(1) IH(2) [OF j])
    qed
  qed
qed

lemma sweep_upto_current:
  "k < length ans \<Longrightarrow> answers_of (sweep_upto svc upper ans w k) ! k = ans ! k"
  using sweep_upto_answers [of k ans svc upper w] by simp

lemma sweep_upto_calls:
  "k \<le> length ans \<Longrightarrow>
     calls (world_of (sweep_upto svc upper ans w k))
       = calls w @ map SafetyRequest (filter answered (take k ans))"
proof (induction k)
  case 0
  then show ?case by (simp add: sweep_upto_def world_of_def)
next
  case (Suc k)
  then have k: "k < length ans" by simp
  show ?case
    using Suc k
    by (simp add: sweep_upto_Suc sweep_step_calls sweep_upto_current take_Suc_conv_app_nth)
qed

lemma sweep_upto_unsafe:
  "k \<le> length ans \<Longrightarrow>
     unsafe_of (sweep_upto svc upper ans w k)
       = filter (\<lambda>i. answered (ans ! i) \<and> verdict svc upper ans w i = Some False) [0..<k]"
proof (induction k)
  case 0
  then show ?case by (simp add: sweep_upto_def unsafe_of_def)
next
  case (Suc k)
  then have k: "k < length ans" by simp
  show ?case
    using Suc k
    by (simp add: sweep_upto_Suc sweep_step_unsafe sweep_upto_current verdict_def)
qed

lemma sweep_upto_all_safe:
  "k \<le> length ans \<Longrightarrow>
     all_safe_of (sweep_upto svc upper ans w k)
       \<longleftrightarrow> (\<forall>i<k. answered (ans ! i) \<longrightarrow> verdict svc upper ans w i = Some True)"
proof (induction k)
  case 0
  then show ?case by (simp add: sweep_upto_def all_safe_of_def)
next
  case (Suc k)
  then have k: "k < length ans" by simp
  show ?case
    using Suc k
    by (simp add: sweep_upto_Suc sweep_step_all_safe sweep_upto_current verdict_def
        less_Suc_eq) blast
qed

text \<open>
  Claim C3, as the code has it. The sweep calls the service once for each answer that
  is not empty after stripping, in the order of the answers, and for no other answer.
  It changes nothing of the session but the answers, and keeps their number. The answer
  at position \<open>i\<close> is replaced by the flagged placeholder exactly when it is not blank and
  the checker, called in the world the sweep has reached at position \<open>i\<close>, returns
  \<open>False\<close>; these positions, in order, are \<open>unsafe_indices\<close>. Every other answer, also one
  whose check returned \<open>None\<close>, is left as it was. \<open>all_answers_safe\<close> remains true exactly
  when the checker returned \<open>True\<close> for every answer that is not blank: a check that
  returned \<open>None\<close> clears the flag and does nothing else to the answers or the indices.
\<close>

theorem safety_sweep_replaces:
  "(case safety_sweep svc upper s w of
      (all_answers_safe, unsafe_indices, s', w') \<Rightarrow>
        calls w' = calls w @ map SafetyRequest (filter answered (answers s))
        \<and> s' = s\<lparr>answers := answers s'\<rparr>
        \<and> length (answers s') = length (answers s)
        \<and> (\<forall>i<length (answers s).
              answers s' ! i =
                (if answered (answers s ! i) \<and> verdict svc upper (answers s) w i = Some False
                 then flagged_placeholder else answers s ! i))
        \<and> unsafe_indices
            = filter (\<lambda>i. answered (answers s ! i)
                           \<and> verdict svc upper (answers s) w i = Some False)
                [0..<length (answers s)]
        \<and> (all_answers_safe \<longleftrightarrow>
             (\<forall>i<length (answers s).
                answered (answers s ! i) \<longrightarrow> verdict svc upper (answers s) w i = Some True)))"
proof -
  let ?n = "length (answers s)"
  let ?st = "sweep_upto svc upper (answers s) w ?n"
  obtain safe unsafe ans' w' where r: "?st = (safe, unsafe, ans', w')"
    by (cases ?st)
  have p: "all_safe_of ?st = safe" "unsafe_of ?st = unsafe" "answers_of ?st = ans'"
    "world_of ?st = w'"
    by (simp_all add: r all_safe_of_def unsafe_of_def answers_of_def world_of_def)
  have c: "calls w' = calls w @ map SafetyRequest (filter answered (answers s))"
    using sweep_upto_calls [of ?n "answers s" svc upper w] p by simp
  have l: "length ans' = ?n"
    using sweep_upto_answers [of ?n "answers s" svc upper w] p by simp
  have e: "\<forall>i<?n. ans' ! i =
                (if answered (answers s ! i) \<and> verdict svc upper (answers s) w i = Some False
                 then flagged_placeholder else answers s ! i)"
    using sweep_upto_answers [of ?n "answers s" svc upper w] p by simp
  have u: "unsafe = filter (\<lambda>i. answered (answers s ! i)
                           \<and> verdict svc upper (answers s) w i = Some False) [0..<?n]"
    using sweep_upto_unsafe [of ?n "answers s" svc upper w] p by simp
  have a: "safe \<longleftrightarrow> (\<forall>i<?n. answered (answers s ! i) \<longrightarrow>
                         verdict svc upper (answers s) w i = Some True)"
    using sweep_upto_all_safe [of ?n "answers s" svc upper w] p by simp
  show ?thesis
    using c l e u a by (simp add: safety_sweep_def r st_error_def)
qed

theorem safety_sweep_replaces_witness:
  "answers (fst (snd (snd (safety_sweep (service_replying (py ''UNSAFE'')) ascii_upper
                             finished_example empty_world))))
       ! 0 = flagged_placeholder
   \<and> calls (snd (snd (snd (safety_sweep (service_replying (py ''UNSAFE'')) ascii_upper
                             finished_example empty_world))))
       = [SafetyRequest (py ''A1''), SafetyRequest (py ''A3'')]"
proof -
  let ?svc = "service_replying (py ''UNSAFE'')"
  obtain safe unsafe s' w' where
    r: "safety_sweep ?svc ascii_upper finished_example empty_world = (safe, unsafe, s', w')"
    by (cases "safety_sweep ?svc ascii_upper finished_example empty_world")
  have ans: "answers finished_example = [py ''A1'', [], py ''A3'']"
    by (simp add: finished_example_def)
  have f: "filter answered [py ''A1'', [], py ''A3''] = [py ''A1'', py ''A3'']"
    by (simp add: answered_def eval_text)
  have a1: "answered (py ''A1'')" by (simp add: answered_def eval_text)
  have c: "verdict ?svc ascii_upper [py ''A1'', [], py ''A3''] empty_world 0 = Some False"
    by (simp add: verdict_def sweep_upto_def world_of_def check_answer_safety_def create_def
        service_replying_def truthy_content_def Let_def eval_text)
  have e: "calls empty_world = []" by (simp add: empty_world_def)
  have t: "calls w' = calls empty_world
                        @ map SafetyRequest (filter answered (answers finished_example))
        \<and> (\<forall>i<length (answers finished_example).
              answers s' ! i =
                (if answered (answers finished_example ! i)
                    \<and> verdict ?svc ascii_upper (answers finished_example) empty_world i
                        = Some False
                 then flagged_placeholder else answers finished_example ! i))"
    using safety_sweep_replaces
      [where svc = ?svc and upper = ascii_upper and s = finished_example and w = empty_world]
    by (simp add: r)
  from t have "calls w' = calls empty_world
                        @ map SafetyRequest (filter answered (answers finished_example))"
    by blast
  then have t1: "calls w' = [SafetyRequest (py ''A1''), SafetyRequest (py ''A3'')]"
    unfolding ans f e by simp
  from t have "0 < length (answers finished_example) \<longrightarrow>
        answers s' ! 0 =
                (if answered (answers finished_example ! 0)
                    \<and> verdict ?svc ascii_upper (answers finished_example) empty_world 0
                        = Some False
                 then flagged_placeholder else answers finished_example ! 0)"
    by blast
  then have t2: "answers s' ! 0 = flagged_placeholder"
    unfolding ans using a1 c by simp
  from t1 t2 show ?thesis by (simp add: r)
qed

text \<open>
  An answer whose check errored is not replaced: with the service unreachable the check
  of the first answer returns \<open>None\<close>, the sweep clears \<open>all_answers_safe\<close>, records no
  unsafe index and leaves the three answers as they were.
\<close>

theorem safety_sweep_keeps_unchecked_answer:
  "answers (fst (snd (snd (safety_sweep service_down ascii_upper finished_example empty_world))))
     = [py ''A1'', [], py ''A3'']
   \<and> fst (safety_sweep service_down ascii_upper finished_example empty_world) = False
   \<and> fst (snd (safety_sweep service_down ascii_upper finished_example empty_world)) = []
   \<and> fst (check_answer_safety service_down ascii_upper (py ''A1'') empty_world) = None"
proof -
  have u: "[0..<3] = [0, Suc 0, Suc (Suc 0)]" by (simp add: upt_rec)
  show ?thesis
    by (simp add: safety_sweep_def sweep_upto_def sweep_step_def check_answer_safety_def
        create_def service_down_def finished_example_def u Let_def eval_text)
qed

end
